theory Spec2Isabelle
  imports Complex_Main "HOL-Library.Char_ord" "HOL-Library.List_Lexorder"
begin

section \<open>Python strings\<close>

text \<open>
  A Python \<open>str\<close> is modelled as a \<open>string\<close>, one \<open>char\<close> per character, the
  character's code being its code point (so the model covers the strings whose code
  points are below 256). The functions below are the \<open>str\<close> methods the package calls.
\<close>

text \<open>
  \<open>str.isspace\<close> for one character: the white space that \<open>strip()\<close> and \<open>split()\<close>
  remove (tab, line feed, vertical tab, form feed, carriage return, the four separators
  \<open>0x1C\<close> to \<open>0x1F\<close>, space, next line and no-break space).
\<close>

definition is_space :: "char \<Rightarrow> bool" where
  "is_space c = (c \<in> set [CHR 0x09, CHR 0x0A, CHR 0x0B, CHR 0x0C, CHR 0x0D,
                           CHR 0x1C, CHR 0x1D, CHR 0x1E, CHR 0x1F, CHR 0x20,
                           CHR 0x85, CHR 0xA0])"

text \<open>\<open>s.strip()\<close>: white space removed from both ends.\<close>

definition strip :: "string \<Rightarrow> string" where
  "strip s = rev (dropWhile is_space (rev (dropWhile is_space s)))"

text \<open>
  Splitting at every character that satisfies \<open>P\<close>; the pieces between two separators
  are kept even when empty, as \<open>s.split(sep)\<close> does.
\<close>

fun split_where :: "(char \<Rightarrow> bool) \<Rightarrow> string \<Rightarrow> string list" where
  "split_where P [] = [[]]"
| "split_where P (c # cs) =
     (if P c then [] # split_where P cs
      else (case split_where P cs of
              [] \<Rightarrow> [[c]]
            | w # ws \<Rightarrow> (c # w) # ws))"

text \<open>\<open>s.split(sep)\<close> for a separator of one character.\<close>

definition split_sep :: "char \<Rightarrow> string \<Rightarrow> string list" where
  "split_sep sep s = split_where (\<lambda>c. c = sep) s"

text \<open>\<open>s.split()\<close>: the words between runs of white space, none of them empty.\<close>

definition split_ws :: "string \<Rightarrow> string list" where
  "split_ws s = filter (\<lambda>w. w \<noteq> []) (split_where is_space s)"

text \<open>\<open>sep.join(parts)\<close>.\<close>

fun join :: "string \<Rightarrow> string list \<Rightarrow> string" where
  "join sep [] = []"
| "join sep [x] = x"
| "join sep (x # y # ys) = x @ sep @ join sep (y # ys)"

text \<open>\<open>s.replace(a, b)\<close> for two strings of one character each.\<close>

definition replace_char :: "char \<Rightarrow> char \<Rightarrow> string \<Rightarrow> string" where
  "replace_char a b s = map (\<lambda>c. if c = a then b else c) s"

text \<open>
  \<open>s.lower()\<close> and \<open>s.capitalize()\<close>, on the letters A to Z. The package applies them
  to the narrative arcs only, which are constants written in ASCII.
\<close>

definition lower_char :: "char \<Rightarrow> char" where
  "lower_char c =
     (case map_of (zip ''ABCDEFGHIJKLMNOPQRSTUVWXYZ'' ''abcdefghijklmnopqrstuvwxyz'') c of
        None \<Rightarrow> c
      | Some l \<Rightarrow> l)"

definition upper_char :: "char \<Rightarrow> char" where
  "upper_char c =
     (case map_of (zip ''abcdefghijklmnopqrstuvwxyz'' ''ABCDEFGHIJKLMNOPQRSTUVWXYZ'') c of
        None \<Rightarrow> c
      | Some u \<Rightarrow> u)"

definition lower :: "string \<Rightarrow> string" where
  "lower s = map lower_char s"

fun capitalize :: "string \<Rightarrow> string" where
  "capitalize [] = []"
| "capitalize (c # cs) = upper_char c # map lower_char cs"

text \<open>\<open>sub in s\<close>: \<open>sub\<close> occurs in \<open>s\<close> as a contiguous piece.\<close>

fun contains :: "string \<Rightarrow> string \<Rightarrow> bool" where
  "contains sub [] = (sub = [])"
| "contains sub (c # cs) = (take (length sub) (c # cs) = sub \<or> contains sub cs)"

text \<open>\<open>str(n)\<close> for an integer: its decimal digits, with a minus sign when negative.\<close>

fun str_nat :: "nat \<Rightarrow> string" where
  "str_nat n =
     (if n < 10 then [''0123456789'' ! n]
      else str_nat (n div 10) @ [''0123456789'' ! (n mod 10)])"

definition str_int :: "int \<Rightarrow> string" where
  "str_int n = (if n < 0 then CHR ''-'' # str_nat (nat (- n)) else str_nat (nat n))"

text \<open>\<open>s.split(":", 1)[-1]\<close>: what follows the first colon, or all of \<open>s\<close> without one.\<close>

definition after_first_colon :: "string \<Rightarrow> string" where
  "after_first_colon s =
     (if CHR '':'' \<in> set s then tl (dropWhile (\<lambda>c. c \<noteq> CHR '':'') s) else s)"

text \<open>\<open>range(n)\<close>: the integers from 0 up to \<open>n - 1\<close>, none when \<open>n \<le> 0\<close>.\<close>

definition py_range :: "int \<Rightarrow> int list" where
  "py_range n = map int [0..<nat n]"

section \<open>The data model (models.py)\<close>

text \<open>
  The dataclass \<open>Scene\<close>. The optional fields are \<open>str | None\<close>; \<open>aspect_ratio\<close> is a
  string whose default is \<open>"16:9"\<close>.
\<close>

record scene =
  index :: int
  title :: string
  summary :: string
  voiceover :: "string option"
  mood :: "string option"
  aspect_ratio :: string
  thumbnail_description :: "string option"

text \<open>The dataclass \<open>Project\<close>.\<close>

record project =
  project_id :: string
  title :: string
  brief :: string
  tone :: string
  target_audience :: string
  duration_minutes :: int
  created_at :: string
  script_summary :: "string option"
  scenes :: "scene list"
  storyboard_ready :: bool
  preview_ready :: bool

section \<open>Exceptions\<close>

text \<open>
  The exceptions of the model; a function that may raise returns \<open>Inl\<close> of the exception
  or \<open>Inr\<close> of its value. \<open>IllTyped\<close> is not a Python exception: a dataclass does not
  check the types of its arguments, so Python would build an object that holds, say, a
  list where a string is declared; such an object is no value of the records above, and a
  construction that would yield one is reported as \<open>IllTyped\<close>, whatever Python does
  with the object afterwards.
\<close>

datatype error = TypeError | AttributeError | FileNotFoundError | OverflowError | IllTyped

section \<open>The generators (ai\_engines.py)\<close>

text \<open>
  \<open>textwrap.fill(text, width)\<close> and \<open>textwrap.wrap(text, width)\<close> belong to Python's
  standard library, not to the package. The generator takes them as a parameter, and every
  statement about the generator holds for whatever these two functions return.
\<close>

record textwrap =
  fill :: "string \<Rightarrow> nat \<Rightarrow> string"
  wrap :: "string \<Rightarrow> nat \<Rightarrow> string list"

text \<open>The class \<open>ScriptGenerator\<close>: its constructor stores \<open>max_sentences\<close> (default 5).\<close>

record script_generator =
  max_sentences :: int

definition new_script_generator :: "int option \<Rightarrow> script_generator" where
  "new_script_generator m = \<lparr> max_sentences = (case m of None \<Rightarrow> 5 | Some n \<Rightarrow> n) \<rparr>"

text \<open>
  The comprehension of \<open>_normalize_sentences\<close>: the pieces between the periods, trimmed,
  those left out that are empty once trimmed.
\<close>

definition trimmed_segments :: "string \<Rightarrow> string list" where
  "trimmed_segments text =
     map strip
       (filter (\<lambda>segment. strip segment \<noteq> [])
          (split_sep CHR ''.'' (replace_char CHR 0x0A CHR '' '' text)))"

definition normalize_sentences :: "string \<Rightarrow> string list" where
  "normalize_sentences text =
     (let sentences = trimmed_segments text
      in if sentences = [] then [''Introduce the topic in an engaging manner'']
         else take 10 sentences)"

definition arcs :: "string list" where
  "arcs =
     [''Hook the audience with a relatable question'',
      ''Present the core promise'',
      ''Deliver the first key insight'',
      ''Share the second key insight'',
      ''Explain how to put the advice into practice'',
      ''Close with a memorable takeaway'']"

text \<open>
  \<open>_story_arc_templates()\<close> returns \<open>itertools.cycle(arcs)\<close>. The iterator's state is the
  number of elements already taken; \<open>next\<close> returns the element at that position of the
  cycle and the advanced iterator.
\<close>

definition story_arc_templates :: nat where
  "story_arc_templates = 0"

definition next_arc :: "nat \<Rightarrow> string \<times> nat" where
  "next_arc template = (arcs ! (template mod length arcs), Suc template)"

definition scene_title :: "int \<Rightarrow> string \<Rightarrow> string" where
  "scene_title i arc =
     (let keywords = take 3 (split_ws arc)
      in ''Scene '' @ str_int (i + 1) @ '': '' @ join '' '' (map capitalize keywords))"

definition voiceover_from_summary :: "textwrap \<Rightarrow> string \<Rightarrow> string" where
  "voiceover_from_summary tw text = (let sentences = wrap tw text 80 in join '' '' sentences)"

definition mood_from_arc :: "string \<Rightarrow> string" where
  "mood_from_arc arc =
     (if contains ''hook'' (lower arc) then ''energetic''
      else if contains ''promise'' (lower arc) then ''confident''
      else if contains ''insight'' (lower arc) then ''informative''
      else if contains ''practice'' (lower arc) then ''encouraging''
      else ''uplifting'')"

definition thumbnail_from_arc :: "string \<Rightarrow> string \<Rightarrow> string" where
  "thumbnail_from_arc arc sentence =
     (let keywords = join '' '' (take 6 (split_ws sentence))
      in strip (lower arc @ '' featuring '' @ keywords))"

text \<open>
  The sentence the loop of \<open>generate\<close> pairs with the scene of index \<open>i\<close>:
  \<open>sentences[index % len(sentences)] if sentences else brief\<close>.
\<close>

definition paired_sentence :: "string list \<Rightarrow> string \<Rightarrow> int \<Rightarrow> string" where
  "paired_sentence sentences text i =
     (if sentences \<noteq> [] then sentences ! nat (i mod int (length sentences)) else text)"

text \<open>The scene one iteration of the loop appends, for the arc and the sentence it has.\<close>

definition build_scene :: "textwrap \<Rightarrow> int \<Rightarrow> string \<Rightarrow> string \<Rightarrow> scene" where
  "build_scene tw i arc sentence =
     (let text = fill tw (arc @ '': '' @ sentence) 90
      in \<lparr> index = i,
           scene.title = scene_title i arc,
           summary = text,
           voiceover = Some (voiceover_from_summary tw text),
           mood = Some (mood_from_arc arc),
           aspect_ratio = ''16:9'',
           thumbnail_description = Some (thumbnail_from_arc arc sentence) \<rparr>)"

text \<open>
  The loop \<open>for index in range(num_scenes)\<close>: the iterator over the arcs is advanced once
  in every iteration.
\<close>

fun generate_loop ::
  "textwrap \<Rightarrow> string \<Rightarrow> string list \<Rightarrow> nat \<Rightarrow> int list \<Rightarrow> scene list" where
  "generate_loop tw text sentences template [] = []"
| "generate_loop tw text sentences template (i # rest) =
     (case next_arc template of
        (arc, template') \<Rightarrow>
          build_scene tw i arc (paired_sentence sentences text i)
            # generate_loop tw text sentences template' rest)"

text \<open>
  \<open>duration_minutes * 1.5\<close> converts the integer to a double (to the nearest, ties to
  even) and multiplies in double precision. From \<open>12009599006321321 * 2^970 + 1\<close> on in
  absolute value the integer has no double, or the product is infinite: the
  multiplication, or \<open>math.ceil\<close> of the infinite product, raises \<open>OverflowError\<close>.
\<close>

definition float_overflow :: "int \<Rightarrow> bool" where
  "float_overflow n = (12009599006321321 * 2 ^ 970 + 1 \<le> \<bar>n\<bar>)"

text \<open>
  \<open>max(3, min(6, math.ceil(duration_minutes * 1.5)))\<close>. Without overflow the product is
  taken exactly: the double product is exact for the durations from 0 to 3, at least 6
  for the larger ones and at most 0 for the negative ones, as the exact product is.
\<close>

definition num_scenes :: "int \<Rightarrow> error + int" where
  "num_scenes minutes =
     (if float_overflow minutes then Inl OverflowError
      else Inr (max 3 (min 6 \<lceil>real_of_int minutes * 1.5\<rceil>)))"

text \<open>\<open>ScriptGenerator.generate\<close>.\<close>

definition generate ::
  "textwrap \<Rightarrow> script_generator \<Rightarrow> string \<Rightarrow> int \<Rightarrow> error + scene list" where
  "generate tw self text minutes =
     (let sentences = normalize_sentences text
      in case num_scenes minutes of
           Inl e \<Rightarrow> Inl e
         | Inr n \<Rightarrow>
             (let template = story_arc_templates
              in Inr (generate_loop tw text sentences template (py_range n))))"

text \<open>\<open>StoryboardDesigner._shot_suggestion\<close>.\<close>

definition shot_suggestion :: "int \<Rightarrow> string" where
  "shot_suggestion i =
     (let options =
            [''wide establishing'',
             ''medium action'',
             ''close-up reaction'',
             ''dynamic tracking'',
             ''graphic overlay'']
      in options ! nat (i mod int (length options)))"

text \<open>
  \<open>StoryboardDesigner.design\<close>: one new scene for every scene of the input, in order.
  \<open>scene.thumbnail_description or ""\<close> is the empty string for \<open>None\<close>.
\<close>

fun design :: "scene list \<Rightarrow> scene list" where
  "design [] = []"
| "design (s # rest) =
     (let ratio = (if index s mod 2 = 0 then ''16:9'' else ''9:16'');
          thumbnail = (case thumbnail_description s of None \<Rightarrow> [] | Some t \<Rightarrow> t);
          thumbnail' = thumbnail @ '' | Shot suggestion: '' @ shot_suggestion (index s)
      in \<lparr> index = index s,
           scene.title = scene.title s,
           summary = summary s,
           voiceover = voiceover s,
           mood = mood s,
           aspect_ratio = ratio,
           thumbnail_description = Some (strip thumbnail') \<rparr> # design rest)"

section \<open>Dictionaries and JSON (models.py)\<close>

text \<open>
  The values \<open>to_dict\<close> builds and \<open>json\<close> writes and reads: \<open>None\<close>, booleans,
  integers, strings, lists, and dictionaries with string keys in the order of insertion.
  A dictionary holds a key once; a lookup finds the entry of the key.
\<close>

datatype json =
    JNull
  | JBool bool
  | JInt int
  | JStr string
  | JList "json list"
  | JObj "(string \<times> json) list"

definition opt_str :: "string option \<Rightarrow> json" where
  "opt_str v = (case v of None \<Rightarrow> JNull | Some s \<Rightarrow> JStr s)"

definition scene_to_dict :: "scene \<Rightarrow> json" where
  "scene_to_dict s =
     JObj [(''index'', JInt (index s)),
           (''title'', JStr (scene.title s)),
           (''summary'', JStr (summary s)),
           (''voiceover'', opt_str (voiceover s)),
           (''mood'', opt_str (mood s)),
           (''aspect_ratio'', JStr (aspect_ratio s)),
           (''thumbnail_description'', opt_str (thumbnail_description s))]"

definition to_dict :: "project \<Rightarrow> json" where
  "to_dict p =
     JObj [(''project_id'', JStr (project_id p)),
           (''title'', JStr (project.title p)),
           (''brief'', JStr (brief p)),
           (''tone'', JStr (tone p)),
           (''target_audience'', JStr (target_audience p)),
           (''duration_minutes'', JInt (duration_minutes p)),
           (''created_at'', JStr (created_at p)),
           (''script_summary'', opt_str (script_summary p)),
           (''scenes'', JList (map scene_to_dict (scenes p))),
           (''storyboard_ready'', JBool (storyboard_ready p)),
           (''preview_ready'', JBool (preview_ready p))]"

text \<open>
  Calling a dataclass with keyword arguments, \<open>cls(**kwargs)\<close>: the call raises
  \<open>TypeError\<close> for a keyword that is no field, and for a field without default that no
  keyword gives.
\<close>

definition accepts :: "string list \<Rightarrow> string list \<Rightarrow> string list \<Rightarrow> bool" where
  "accepts names required keys =
     (list_all (\<lambda>k. k \<in> set names) keys \<and> list_all (\<lambda>k. k \<in> set keys) required)"

text \<open>The argument a keyword gives, or the field's default.\<close>

definition arg :: "(string \<times> json) list \<Rightarrow> string \<Rightarrow> json \<Rightarrow> json" where
  "arg kwargs k d = (case map_of kwargs k of None \<Rightarrow> d | Some v \<Rightarrow> v)"

fun is_str :: "json \<Rightarrow> bool" where
  "is_str (JStr s) = True"
| "is_str v = False"

fun is_opt_str :: "json \<Rightarrow> bool" where
  "is_opt_str (JStr s) = True"
| "is_opt_str JNull = True"
| "is_opt_str v = False"

fun is_int :: "json \<Rightarrow> bool" where
  "is_int (JInt n) = True"
| "is_int v = False"

fun is_bool :: "json \<Rightarrow> bool" where
  "is_bool (JBool b) = True"
| "is_bool v = False"

fun str_of :: "json \<Rightarrow> string" where
  "str_of (JStr s) = s"
| "str_of v = []"

fun opt_str_of :: "json \<Rightarrow> string option" where
  "opt_str_of (JStr s) = Some s"
| "opt_str_of v = None"

fun int_of :: "json \<Rightarrow> int" where
  "int_of (JInt n) = n"
| "int_of v = 0"

fun bool_of :: "json \<Rightarrow> bool" where
  "bool_of (JBool b) = b"
| "bool_of v = False"

definition scene_fields :: "string list" where
  "scene_fields =
     [''index'', ''title'', ''summary'', ''voiceover'', ''mood'', ''aspect_ratio'',
      ''thumbnail_description'']"

definition scene_required :: "string list" where
  "scene_required = [''index'', ''title'', ''summary'']"

text \<open>\<open>Scene(**scene_dict)\<close>; what is not a mapping cannot follow \<open>**\<close>.\<close>

definition new_scene :: "json \<Rightarrow> error + scene" where
  "new_scene v =
     (case v of
        JObj kw \<Rightarrow>
          if \<not> accepts scene_fields scene_required (map fst kw) then Inl TypeError
          else if \<not> (is_int (arg kw ''index'' JNull) \<and> is_str (arg kw ''title'' JNull)
                      \<and> is_str (arg kw ''summary'' JNull)
                      \<and> is_opt_str (arg kw ''voiceover'' JNull)
                      \<and> is_opt_str (arg kw ''mood'' JNull)
                      \<and> is_str (arg kw ''aspect_ratio'' (JStr ''16:9''))
                      \<and> is_opt_str (arg kw ''thumbnail_description'' JNull))
          then Inl IllTyped
          else Inr \<lparr> index = int_of (arg kw ''index'' JNull),
                     scene.title = str_of (arg kw ''title'' JNull),
                     summary = str_of (arg kw ''summary'' JNull),
                     voiceover = opt_str_of (arg kw ''voiceover'' JNull),
                     mood = opt_str_of (arg kw ''mood'' JNull),
                     aspect_ratio = str_of (arg kw ''aspect_ratio'' (JStr ''16:9'')),
                     thumbnail_description =
                       opt_str_of (arg kw ''thumbnail_description'' JNull) \<rparr>
      | _ \<Rightarrow> Inl TypeError)"

text \<open>A list comprehension whose element expression may raise: the first exception ends it.\<close>

fun collect :: "('a \<Rightarrow> error + 'b) \<Rightarrow> 'a list \<Rightarrow> error + 'b list" where
  "collect f [] = Inr []"
| "collect f (x # xs) =
     (case f x of
        Inl e \<Rightarrow> Inl e
      | Inr y \<Rightarrow> (case collect f xs of Inl e \<Rightarrow> Inl e | Inr ys \<Rightarrow> Inr (y # ys)))"

text \<open>
  \<open>[Scene(**scene_dict) for scene_dict in v]\<close>. Iterating a string gives its characters
  and iterating a dictionary gives its keys, neither of which is a mapping; \<open>None\<close>,
  booleans and integers cannot be iterated.
\<close>

definition scenes_from :: "json \<Rightarrow> error + scene list" where
  "scenes_from v =
     (case v of
        JList xs \<Rightarrow> collect new_scene xs
      | JStr s \<Rightarrow> if s = [] then Inr [] else Inl TypeError
      | JObj kw \<Rightarrow> if kw = [] then Inr [] else Inl TypeError
      | _ \<Rightarrow> Inl TypeError)"

definition project_fields :: "string list" where
  "project_fields =
     [''project_id'', ''title'', ''brief'', ''tone'', ''target_audience'',
      ''duration_minutes'', ''created_at'', ''script_summary'', ''scenes'',
      ''storyboard_ready'', ''preview_ready'']"

definition project_required :: "string list" where
  "project_required =
     [''project_id'', ''title'', ''brief'', ''tone'', ''target_audience'',
      ''duration_minutes'']"

text \<open>
  \<open>Project.from_dict\<close>. The default of \<open>created_at\<close> is the time of the call, which the
  model takes as the parameter \<open>now\<close>. The keys of \<open>{**payload, "scenes": scenes}\<close> are
  those of the payload and \<open>scenes\<close>.
\<close>

definition from_dict :: "string \<Rightarrow> (string \<times> json) list \<Rightarrow> error + project" where
  "from_dict now payload =
     (case scenes_from (arg payload ''scenes'' (JList [])) of
        Inl e \<Rightarrow> Inl e
      | Inr scs \<Rightarrow>
          if \<not> accepts project_fields project_required (''scenes'' # map fst payload)
          then Inl TypeError
          else if \<not> (is_str (arg payload ''project_id'' JNull)
                      \<and> is_str (arg payload ''title'' JNull)
                      \<and> is_str (arg payload ''brief'' JNull)
                      \<and> is_str (arg payload ''tone'' JNull)
                      \<and> is_str (arg payload ''target_audience'' JNull)
                      \<and> is_int (arg payload ''duration_minutes'' JNull)
                      \<and> is_str (arg payload ''created_at'' (JStr now))
                      \<and> is_opt_str (arg payload ''script_summary'' JNull)
                      \<and> is_bool (arg payload ''storyboard_ready'' (JBool False))
                      \<and> is_bool (arg payload ''preview_ready'' (JBool False)))
          then Inl IllTyped
          else Inr \<lparr> project_id = str_of (arg payload ''project_id'' JNull),
                     title = str_of (arg payload ''title'' JNull),
                     brief = str_of (arg payload ''brief'' JNull),
                     tone = str_of (arg payload ''tone'' JNull),
                     target_audience = str_of (arg payload ''target_audience'' JNull),
                     duration_minutes = int_of (arg payload ''duration_minutes'' JNull),
                     created_at = str_of (arg payload ''created_at'' (JStr now)),
                     script_summary = opt_str_of (arg payload ''script_summary'' JNull),
                     scenes = scs,
                     storyboard_ready =
                       bool_of (arg payload ''storyboard_ready'' (JBool False)),
                     preview_ready = bool_of (arg payload ''preview_ready'' (JBool False)) \<rparr>)"

text \<open>\<open>Project.from_dict\<close> of a value read from a file: only a dictionary has \<open>get\<close>.\<close>

definition from_json :: "string \<Rightarrow> json \<Rightarrow> error + project" where
  "from_json now v = (case v of JObj payload \<Rightarrow> from_dict now payload | _ \<Rightarrow> Inl AttributeError)"

section \<open>The storage (storage.py)\<close>

text \<open>
  A path is a file directly inside the home directory of the storage, given by its name,
  or a file anywhere else, given by its full path. The file system maps each path that
  exists to what the file holds. A file holds the JSON value written to it:
  \<open>json.loads\<close> gives back the value \<open>json.dumps\<close> was given, up to the order of the
  keys, which no reader depends on. Writing a file does not fail: the project ids are
  plain file names, as \<open>create_project\<close> makes them, and the directories exist.
\<close>

datatype path = Home string | Elsewhere string

type_synonym filesystem = "(path \<times> json) list"

text \<open>
  \<open>ProjectStorage\<close>: \<open>home\<close> is the home directory as a string, \<open>files\<close> the file system
  the storage works on.
\<close>

record storage =
  home :: string
  files :: filesystem

definition write_text :: "path \<Rightarrow> json \<Rightarrow> filesystem \<Rightarrow> filesystem" where
  "write_text p v fs = (p, v) # filter (\<lambda>e. fst e \<noteq> p) fs"

definition read_text :: "filesystem \<Rightarrow> path \<Rightarrow> error + json" where
  "read_text fs p = (case map_of fs p of None \<Rightarrow> Inl FileNotFoundError | Some v \<Rightarrow> Inr v)"

definition path_for :: "string \<Rightarrow> path" where
  "path_for pid = Home (pid @ ''.json'')"

definition save :: "storage \<Rightarrow> project \<Rightarrow> storage" where
  "save st p = st\<lparr>files := write_text (path_for (project_id p)) (to_dict p) (files st)\<rparr>"


definition ends_with :: "string \<Rightarrow> string \<Rightarrow> bool" where
  "ends_with suffix s =
     (length suffix \<le> length s \<and> drop (length s - length suffix) s = suffix)"

text \<open>\<open>home.glob("*.json")\<close>: the files of the home directory whose name ends in \<open>.json\<close>.\<close>

definition glob_json :: "filesystem \<Rightarrow> string list" where
  "glob_json fs =
     filter (ends_with ''.json'')
       (concat (map (\<lambda>e. case fst e of Home name \<Rightarrow> [name] | Elsewhere full \<Rightarrow> []) fs))"

text \<open>
  A generator whose body may raise: the values it yields, in order, and the exception
  that ends the iteration, if there is one.
\<close>

fun yield_each :: "('a \<Rightarrow> error + 'b) \<Rightarrow> 'a list \<Rightarrow> 'b list \<times> error option" where
  "yield_each f [] = ([], None)"
| "yield_each f (x # xs) =
     (case f x of
        Inl e \<Rightarrow> ([], Some e)
      | Inr y \<Rightarrow> (case yield_each f xs of (ys, r) \<Rightarrow> (y # ys, r)))"

text \<open>
  \<open>ProjectStorage.list_projects\<close>, iterated to its end. The paths of one directory are
  sorted by their names, compared character by character.
\<close>

definition list_projects :: "string \<Rightarrow> storage \<Rightarrow> project list \<times> error option" where
  "list_projects now st =
     yield_each
       (\<lambda>name. case read_text (files st) (Home name) of
                  Inl e \<Rightarrow> Inl e
                | Inr data \<Rightarrow> from_json now data)
       (sort (glob_json (files st)))"

section \<open>The service (project\_service.py)\<close>

text \<open>
  \<open>ProjectService\<close> holds a storage and a script generator (the storyboard designer has
  no state). Every operation returns the service as it is afterwards together with the
  value the method returns, or the exception it raises.
\<close>

record service =
  storage :: storage
  script_generator :: script_generator

text \<open>
  \<open>create_project\<close>: \<open>uuid_hex\<close> is \<open>uuid.uuid4().hex\<close> and \<open>now\<close> the time of the call,
  the two values the method takes from its environment.
\<close>

definition create_project ::
  "service \<Rightarrow> string \<Rightarrow> string \<Rightarrow> string \<Rightarrow> string \<Rightarrow> string \<Rightarrow> string \<Rightarrow> int
     \<Rightarrow> service \<times> project" where
  "create_project svc uuid_hex now ttl brf tn audience minutes =
     (let p = \<lparr> project_id = take 12 uuid_hex,
                 title = ttl,
                 brief = brf,
                 tone = tn,
                 target_audience = audience,
                 duration_minutes = minutes,
                 created_at = now,
                 script_summary = None,
                 scenes = [],
                 storyboard_ready = False,
                 preview_ready = False \<rparr>
      in (svc\<lparr>storage := save (storage svc) p\<rparr>, p))"

definition summarize_scenes :: "scene list \<Rightarrow> string" where
  "summarize_scenes scs =
     (let key_points = map (\<lambda>s. strip (after_first_colon (summary s))) scs
      in join '' | '' key_points)"

definition generate_script ::
  "textwrap \<Rightarrow> service \<Rightarrow> project \<Rightarrow> error + service \<times> project" where
  "generate_script tw svc p =
     (case generate tw (script_generator svc) (brief p) (duration_minutes p) of
        Inl e \<Rightarrow> Inl e
      | Inr scs \<Rightarrow>
          (let text = summarize_scenes scs;
               p' = p\<lparr>scenes := scs, script_summary := Some text\<rparr>
           in Inr (svc\<lparr>storage := save (storage svc) p'\<rparr>, p')))"

definition design_storyboard ::
  "textwrap \<Rightarrow> service \<Rightarrow> project \<Rightarrow> error + service \<times> project" where
  "design_storyboard tw svc p =
     (case (if scenes p = [] then generate_script tw svc p else Inr (svc, p)) of
        Inl e \<Rightarrow> Inl e
      | Inr (svc1, p1) \<Rightarrow>
          (let scs = design (scenes p1);
               p2 = p1\<lparr>scenes := scs, storyboard_ready := True\<rparr>
           in Inr (svc1\<lparr>storage := save (storage svc1) p2\<rparr>, p2)))"

text \<open>
  \<open>_build_preview_payload\<close>. The assets' location is \<open>base / "assets" / project_id\<close> as a
  string, for a home directory other than the root and a project id that is a plain name.
\<close>

definition build_preview_payload :: "project \<Rightarrow> string \<Rightarrow> json" where
  "build_preview_payload p assets_root =
     (let assets_location = assets_root @ ''/assets/'' @ project_id p
      in JObj [(''project_id'', JStr (project_id p)),
               (''title'', JStr (project.title p)),
               (''tone'', JStr (tone p)),
               (''target_audience'', JStr (target_audience p)),
               (''script_summary'', opt_str (script_summary p)),
               (''scenes'', JList (map scene_to_dict (scenes p))),
               (''render_metadata'',
                  JObj [(''duration_minutes'', JInt (duration_minutes p)),
                        (''rendered_with'', JStr ''revid-clone''),
                        (''assets_root'', JStr assets_location)])])"

text \<open>
  \<open>render_preview\<close>: \<open>destination\<close> is the optional path of the caller; a \<open>Path\<close> is
  never false, so the default is taken for \<open>None\<close> only.
\<close>

definition render_preview ::
  "textwrap \<Rightarrow> service \<Rightarrow> project \<Rightarrow> path option \<Rightarrow> error + service \<times> path" where
  "render_preview tw svc p destination =
     (case (if \<not> storyboard_ready p then design_storyboard tw svc p else Inr (svc, p)) of
        Inl e \<Rightarrow> Inl e
      | Inr (svc1, p1) \<Rightarrow>
          (let preview = build_preview_payload p1 (home (storage svc1));
               dest = (case destination of
                         None \<Rightarrow> Home (project_id p1 @ ''_preview.json'')
                       | Some d \<Rightarrow> d);
               st2 = (storage svc1)\<lparr>files := write_text dest preview (files (storage svc1))\<rparr>;
               p2 = p1\<lparr>preview_ready := True\<rparr>
           in Inr (svc1\<lparr>storage := save st2 p2\<rparr>, dest)))"

text \<open>\<open>list_projects\<close> and \<open>load_project\<close> of the service pass the call on to the storage.\<close>

definition service_list_projects :: "string \<Rightarrow> service \<Rightarrow> project list \<times> error option" where
  "service_list_projects now svc = list_projects now (storage svc)"


text \<open>
  \<open>ProjectService(storage=ProjectStorage(home))\<close> on a home directory that holds the
  given files, with the default script generator.
\<close>

definition new_service :: "string \<Rightarrow> filesystem \<Rightarrow> service" where
  "new_service dir fs =
     \<lparr> storage = \<lparr> home = dir, files = fs \<rparr>,
       script_generator = new_script_generator None \<rparr>"

text \<open>
  What \<open>textwrap\<close> returns for a text that fits on one line (single spaces between the
  words, no white space at the ends, no tab or line break, no longer than the width): the
  text as it is. It serves to run the model on short inputs.
\<close>

definition one_line :: textwrap where
  "one_line = \<lparr> fill = (\<lambda>text width. text), wrap = (\<lambda>text width. [text]) \<rparr>"

section \<open>Example values\<close>

text \<open>
  A service on an empty home directory, and the project of the package's own test
  (\<open>test_full_generation_pipeline\<close>), created there. Every text the generator wraps for
  this project is shorter than 80 characters, so that \<open>one_line\<close> is what \<open>textwrap\<close>
  returns for it.
\<close>

definition example_service :: service where
  "example_service = new_service ''/home/user/.revid_clone'' []"

definition example_created :: "service \<times> project" where
  "example_created =
     create_project example_service ''3f2a9c0b7d1e4f5a8b6c7d8e9f0a1b2c'' ''2024-01-01T00:00:00Z''
       ''Morning Routine Hacks''
       ''Share three actionable tips. Focus on energising the viewer.''
       ''upbeat'' ''busy professionals'' 2"

text \<open>Two scenes written by hand: one with a thumbnail, one without.\<close>

definition example_scenes :: "scene list" where
  "example_scenes =
     [\<lparr> index = 0, scene.title = ''Scene 1: Opening'', summary = ''Opening: a cat'',
        voiceover = Some ''Opening: a cat'', mood = Some ''energetic'',
        aspect_ratio = ''16:9'', thumbnail_description = Some ''a cat'' \<rparr>,
      \<lparr> index = 3, scene.title = ''Scene 4: Closing'', summary = ''Closing: a dog'',
        voiceover = None, mood = None,
        aspect_ratio = ''16:9'', thumbnail_description = None \<rparr>]"

text \<open>What the operations return for the example project, when they return.\<close>

definition example_scripted :: "service \<times> project" where
  "example_scripted =
     projr (generate_script one_line (fst example_created) (snd example_created))"

definition example_storyboarded :: "service \<times> project" where
  "example_storyboarded =
     projr (design_storyboard one_line (fst example_created) (snd example_created))"

definition example_storyboarded_twice :: "service \<times> project" where
  "example_storyboarded_twice =
     projr (design_storyboard one_line (fst example_storyboarded) (snd example_storyboarded))"

definition example_rendered :: "service \<times> path" where
  "example_rendered =
     projr (render_preview one_line (fst example_created) (snd example_created) None)"


section \<open>The projects the service arrives at\<close>



section \<open>The script generator\<close>

lemma length_generate_loop: "length (generate_loop tw text sentences template xs) = length xs"
  by (induction xs arbitrary: template) (simp_all add: next_arc_def)

lemma generate_loop_nth:
  "i < length xs \<Longrightarrow>
   generate_loop tw text sentences template xs ! i =
     build_scene tw (xs ! i) (arcs ! ((template + i) mod length arcs))
       (paired_sentence sentences text (xs ! i))"
proof (induction xs arbitrary: template i)
  case Nil
  then show ?case by simp
next
  case (Cons x xs)
  show ?case
  proof (cases i)
    case 0
    then show ?thesis by (simp add: next_arc_def)
  next
    case (Suc j)
    with Cons.prems have "j < length xs" by simp
    from Cons.IH [OF this, of "Suc template"] Suc show ?thesis
      by (simp add: next_arc_def)
  qed
qed

lemma ceiling_three_halves: "\<lceil>real_of_int d * 1.5\<rceil> = (3 * d + 1) div 2"
  by linarith

lemma length_py_range: "length (py_range n) = nat n"
  by (simp add: py_range_def)

lemma small_no_overflow:
  assumes "\<bar>n\<bar> \<le> 100"
  shows "\<not> float_overflow n"
proof -
  have "(1::int) \<le> 2 ^ 970" by simp
  then have "(12009599006321321::int) * 1 \<le> 12009599006321321 * 2 ^ 970"
    by (intro mult_left_mono) simp_all
  with assms show ?thesis by (simp add: float_overflow_def)
qed

lemma generate_eq:
  "generate tw self text minutes =
     (if float_overflow minutes then Inl OverflowError
      else Inr (generate_loop tw text (normalize_sentences text) 0
                  (py_range (max 3 (min 6 \<lceil>real_of_int minutes * 1.5\<rceil>)))))"
  by (simp add: generate_def num_scenes_def story_arc_templates_def Let_def)

lemma index_build_scene: "index (build_scene tw i arc sentence) = i"
  by (simp add: build_scene_def Let_def)

lemma length_generate:
  assumes "generate tw self text minutes = Inr scs"
  shows "int (length scs) = max 3 (min 6 \<lceil>real_of_int minutes * 1.5\<rceil>)"
  using assms
  by (auto simp add: generate_eq length_generate_loop length_py_range split: if_splits)

lemma generate_nth:
  assumes "generate tw self text minutes = Inr scs" and "i < length scs"
  shows "scs ! i =
           build_scene tw (int i) (arcs ! (i mod length arcs))
             (paired_sentence (normalize_sentences text) text (int i))"
proof -
  let ?n = "max 3 (min 6 \<lceil>real_of_int minutes * 1.5\<rceil>)"
  from assms(1) have scs: "scs = generate_loop tw text (normalize_sentences text) 0 (py_range ?n)"
    by (simp add: generate_eq split: if_splits)
  with assms(2) have i: "i < length (py_range ?n)"
    by (simp add: length_generate_loop)
  then have "py_range ?n ! i = int i"
    by (simp add: py_range_def)
  with generate_loop_nth [OF i, of tw "text" "normalize_sentences text" 0]
  show ?thesis
    by (simp add: scs)
qed

lemma generate_not_empty: "generate tw self text minutes = Inr scs \<Longrightarrow> scs \<noteq> []"
proof -
  assume "generate tw self text minutes = Inr scs"
  from length_generate [OF this] have "3 \<le> int (length scs)" by simp
  then show ?thesis by auto
qed

text \<open>
  Claim C2. For every duration from 1 to 100 minutes and every brief, \<open>generate\<close> returns
  between 3 and 6 scenes, as many as \<open>ceil(duration_minutes * 1.5)\<close> clamped to the range
  from 3 to 6, and the scene at position \<open>i\<close> has index \<open>i\<close>.
\<close>

theorem generate_scene_count:
  assumes "1 \<le> minutes" and "minutes \<le> 100"
  shows "\<exists>scs. generate tw self text minutes = Inr scs
       \<and> 3 \<le> length scs \<and> length scs \<le> 6
       \<and> int (length scs) = max 3 (min 6 \<lceil>real_of_int minutes * 1.5\<rceil>)
       \<and> (\<forall>i < length scs. index (scs ! i) = int i)"
proof -
  from assms have "\<not> float_overflow minutes"
    by (intro small_no_overflow) simp
  then obtain scs where g: "generate tw self text minutes = Inr scs"
    by (simp add: generate_eq)
  have len: "int (length scs) = max 3 (min 6 \<lceil>real_of_int minutes * 1.5\<rceil>)"
    using g by (rule length_generate)
  then have "3 \<le> int (length scs)" and "int (length scs) \<le> 6"
    by simp_all
  then have bounds: "3 \<le> length scs" "length scs \<le> 6"
    by linarith+
  have "index (scs ! i) = int i" if "i < length scs" for i
    using generate_nth [OF g that] by (simp add: index_build_scene)
  with g len bounds show ?thesis by blast
qed

theorem generate_scene_count_witness:
  "(1::int) \<le> 3 \<and> (3::int) \<le> 100
   \<and> map_sum id length (generate one_line (new_script_generator None) ''One. Two.'' 3)
       = Inr 5
   \<and> map_sum id (map index) (generate one_line (new_script_generator None) ''One. Two.'' 3)
       = Inr [0, 1, 2, 3, 4]"
proof -
  have h: "(1::int) \<le> 3" "(3::int) \<le> 100" by simp_all
  from generate_scene_count [OF h, of one_line "new_script_generator None" "''One. Two.''"]
  obtain scs where g: "generate one_line (new_script_generator None) ''One. Two.'' 3 = Inr scs"
    and len: "int (length scs) = max 3 (min 6 \<lceil>real_of_int 3 * 1.5\<rceil>)"
    and ix: "\<forall>i < length scs. index (scs ! i) = int i"
    by blast
  have five: "max 3 (min 6 \<lceil>real_of_int 3 * 1.5\<rceil>) = (5::int)"
    by (simp add: ceiling_three_halves)
  from len five have l: "length scs = 5" by simp
  from ix l have "\<forall>i<5. index (scs ! i) = int i" by simp
  then have "map index scs = [0, 1, 2, 3, 4]"
    using l
    by (simp add: list_eq_iff_nth_eq nth_Cons' less_Suc_eq numeral_eq_Suc all_conj_distrib)
  with h l g show ?thesis by simp
qed

section \<open>The storyboard designer\<close>

lemma dropWhile_keeps_last:
  "xs \<noteq> [] \<Longrightarrow> \<not> P (last xs) \<Longrightarrow> dropWhile P xs \<noteq> [] \<and> last (dropWhile P xs) = last xs"
  by (induction xs) (auto split: if_splits)

lemma dropWhile_rev_last:
  "xs \<noteq> [] \<Longrightarrow> \<not> P (last xs) \<Longrightarrow> dropWhile P (rev xs) = rev xs"
  by (cases xs rule: rev_cases) simp_all

lemma strip_no_trailing:
  assumes "s \<noteq> []" and "\<not> is_space (last s)"
  shows "strip s = dropWhile is_space s"
proof -
  let ?d = "dropWhile is_space s"
  from dropWhile_keeps_last [of s is_space] assms
  have d: "?d \<noteq> []" "\<not> is_space (last ?d)"
    by simp_all
  then have "dropWhile is_space (rev ?d) = rev ?d"
    by (rule dropWhile_rev_last)
  then show ?thesis by (simp add: strip_def)
qed

lemma strip_fixed:
  assumes "s \<noteq> []" and "\<not> is_space (hd s)" and "\<not> is_space (last s)"
  shows "strip s = s"
proof -
  from assms(1,2) have "dropWhile is_space s = s" by (cases s) simp_all
  with strip_no_trailing [OF assms(1,3)] show ?thesis by simp
qed

lemma strip_head:
  assumes "s \<noteq> []" and "\<not> is_space (last s)"
  shows "strip s \<noteq> [] \<and> \<not> is_space (hd (strip s)) \<and> last (strip s) = last s"
proof -
  from dropWhile_keeps_last [of s is_space] assms
  have "dropWhile is_space s \<noteq> []" "last (dropWhile is_space s) = last s" by simp_all
  moreover from this(1) have "\<not> is_space (hd (dropWhile is_space s))"
    by (rule hd_dropWhile)
  ultimately show ?thesis by (simp add: strip_no_trailing [OF assms])
qed

lemma shot_suggestion_cases:
  "shot_suggestion i \<in> set [''wide establishing'', ''medium action'', ''close-up reaction'',
     ''dynamic tracking'', ''graphic overlay'']"
proof -
  have "0 \<le> i mod 5" and "i mod 5 < 5" by simp_all
  then have "i mod 5 = 0 \<or> i mod 5 = 1 \<or> i mod 5 = 2 \<or> i mod 5 = 3 \<or> i mod 5 = 4"
    by linarith
  then show ?thesis
    by (auto simp add: shot_suggestion_def Let_def)
qed

lemma shot_suggestion_last:
  "shot_suggestion i \<noteq> [] \<and> \<not> is_space (last (shot_suggestion i))"
  using shot_suggestion_cases [of i] by (auto simp add: is_space_def)

text \<open>The text \<open>design\<close> appends to a thumbnail.\<close>

lemma design_nth:
  "i < length scs \<Longrightarrow>
   design scs ! i =
     \<lparr> index = index (scs ! i),
       scene.title = scene.title (scs ! i),
       summary = summary (scs ! i),
       voiceover = voiceover (scs ! i),
       mood = mood (scs ! i),
       aspect_ratio = (if index (scs ! i) mod 2 = 0 then ''16:9'' else ''9:16''),
       thumbnail_description =
         Some (strip ((case thumbnail_description (scs ! i) of None \<Rightarrow> [] | Some t \<Rightarrow> t)
                        @ '' | Shot suggestion: '' @ shot_suggestion (index (scs ! i)))) \<rparr>"
proof (induction scs arbitrary: i)
  case Nil
  then show ?case by simp
next
  case (Cons s scs)
  then show ?case by (cases i) (simp_all add: Let_def)
qed

lemma length_design: "length (design scs) = length scs"
  by (induction scs) (simp_all add: Let_def)

text \<open>
  Claim C5. For every sequence of scenes, \<open>design\<close> returns a sequence of the same length
  in which the scene at each position has aspect ratio \<open>16:9\<close> when the index of the input
  scene is even and \<open>9:16\<close> when it is odd; its thumbnail description is the input's (empty
  for \<open>None\<close>) followed by \<open>" | Shot suggestion: "\<close> and the entry at position
  \<open>index mod 5\<close> of the list wide establishing, medium action, close-up reaction, dynamic
  tracking, graphic overlay, trimmed of surrounding white space; index, title, summary,
  voiceover and mood are those of the input scene.
\<close>

theorem design_assigns_by_index:
  "length (design scs) = length scs
   \<and> (\<forall>i < length scs.
         aspect_ratio (design scs ! i) = (if even (index (scs ! i)) then ''16:9'' else ''9:16'')
       \<and> thumbnail_description (design scs ! i) =
           Some (strip ((case thumbnail_description (scs ! i) of None \<Rightarrow> '''' | Some t \<Rightarrow> t)
                        @ '' | Shot suggestion: ''
                        @ [''wide establishing'', ''medium action'', ''close-up reaction'',
                           ''dynamic tracking'', ''graphic overlay'']
                          ! nat (index (scs ! i) mod 5)))
       \<and> index (design scs ! i) = index (scs ! i)
       \<and> scene.title (design scs ! i) = scene.title (scs ! i)
       \<and> summary (design scs ! i) = summary (scs ! i)
       \<and> voiceover (design scs ! i) = voiceover (scs ! i)
       \<and> mood (design scs ! i) = mood (scs ! i))"
  by (simp add: length_design design_nth shot_suggestion_def Let_def even_iff_mod_2_eq_zero)

theorem design_assigns_by_index_witness:
  "length (design example_scenes) = 2
   \<and> map aspect_ratio (design example_scenes) = [''16:9'', ''9:16'']
   \<and> map thumbnail_description (design example_scenes) =
       [Some ''a cat | Shot suggestion: wide establishing'',
        Some ''| Shot suggestion: dynamic tracking'']
   \<and> map index (design example_scenes) = [0, 3]
   \<and> map scene.title (design example_scenes) = [''Scene 1: Opening'', ''Scene 4: Closing'']
   \<and> map mood (design example_scenes) = [Some ''energetic'', None]"
proof -
  have len: "length example_scenes = 2" by (simp add: example_scenes_def)
  note t = design_assigns_by_index [of example_scenes]
  from t len have l: "length (design example_scenes) = 2" by simp
  from t len have a: "\<forall>i<2.
         aspect_ratio (design example_scenes ! i)
           = (if even (index (example_scenes ! i)) then ''16:9'' else ''9:16'')
       \<and> thumbnail_description (design example_scenes ! i) =
           Some (strip ((case thumbnail_description (example_scenes ! i) of
                           None \<Rightarrow> '''' | Some t \<Rightarrow> t)
                        @ '' | Shot suggestion: ''
                        @ [''wide establishing'', ''medium action'', ''close-up reaction'',
                           ''dynamic tracking'', ''graphic overlay'']
                          ! nat (index (example_scenes ! i) mod 5)))
       \<and> index (design example_scenes ! i) = index (example_scenes ! i)
       \<and> scene.title (design example_scenes ! i) = scene.title (example_scenes ! i)
       \<and> mood (design example_scenes ! i) = mood (example_scenes ! i)"
    by simp
  from a [rule_format, of 0] a [rule_format, of 1] l
  show ?thesis
    by (simp add: list_eq_iff_nth_eq less_Suc_eq numeral_2_eq_2 example_scenes_def
          strip_def is_space_def)
qed

section \<open>Dictionaries of projects\<close>

lemma new_scene_to_dict: "new_scene (scene_to_dict s) = Inr s"
  by (cases s)
    (simp add: new_scene_def scene_to_dict_def accepts_def scene_fields_def scene_required_def
       arg_def opt_str_def split: option.split)

lemma collect_scenes: "collect new_scene (map scene_to_dict scs) = Inr scs"
  by (induction scs) (simp_all add: new_scene_to_dict)

lemma from_dict_to_dict: "from_json now (to_dict p) = Inr p"
  by (cases p)
    (simp add: from_json_def from_dict_def to_dict_def scenes_from_def collect_scenes
       accepts_def project_fields_def project_required_def arg_def opt_str_def
       split: option.split)

text \<open>
  Claim C8. For every project, \<open>from_dict\<close> of its \<open>to_dict\<close> succeeds, with the project
  itself, and the \<open>to_dict\<close> of the result is the dictionary it was built from, the list of
  the scenes' dictionaries included.
\<close>

theorem to_dict_round_trip:
  "\<exists>q. from_json now (to_dict p) = Inr q \<and> q = p \<and> to_dict q = to_dict p"
  by (simp add: from_dict_to_dict)

theorem to_dict_round_trip_witness:
  "from_json ''2030-05-05T00:00:00Z'' (to_dict (snd example_storyboarded))
     = Inr (snd example_storyboarded)
   \<and> length (scenes (snd example_storyboarded)) = 3
   \<and> storyboard_ready (snd example_storyboarded)"
proof -
  from to_dict_round_trip [of "''2030-05-05T00:00:00Z''" "snd example_storyboarded"]
  have "from_json ''2030-05-05T00:00:00Z'' (to_dict (snd example_storyboarded))
     = Inr (snd example_storyboarded)"
    by blast
  moreover have "length (scenes (snd example_storyboarded)) = 3"
    "storyboard_ready (snd example_storyboarded)"
    by code_simp+
  ultimately show ?thesis by simp
qed

section \<open>Storyboarding a project twice\<close>

lemma strip_suggestion_twice:
  "strip (strip (t @ '' | Shot suggestion: '' @ shot_suggestion i)
            @ '' | Shot suggestion: '' @ shot_suggestion i)
   = strip (t @ '' | Shot suggestion: '' @ shot_suggestion i)
       @ '' | Shot suggestion: '' @ shot_suggestion i"
proof -
  let ?sfx = "'' | Shot suggestion: '' @ shot_suggestion i"
  let ?u = "strip (t @ ?sfx)"
  from shot_suggestion_last [of i]
  have sfx: "?sfx \<noteq> []" "\<not> is_space (last ?sfx)" by simp_all
  then have "t @ ?sfx \<noteq> []" "\<not> is_space (last (t @ ?sfx))" by simp_all
  from strip_head [OF this] have u: "?u \<noteq> []" "\<not> is_space (hd ?u)" by simp_all
  from u sfx have "?u @ ?sfx \<noteq> []" "\<not> is_space (hd (?u @ ?sfx))"
    "\<not> is_space (last (?u @ ?sfx))" by simp_all
  then show ?thesis by (rule strip_fixed)
qed

lemma design_design:
  "design (design scs) =
     map (\<lambda>s. s\<lparr>thumbnail_description :=
                   map_option (\<lambda>t. t @ '' | Shot suggestion: '' @ shot_suggestion (index s))
                     (thumbnail_description s)\<rparr>)
       (design scs)"
proof (rule nth_equalityI)
  show "length (design (design scs)) = length (map (\<lambda>s. s\<lparr>thumbnail_description :=
                   map_option (\<lambda>t. t @ '' | Shot suggestion: '' @ shot_suggestion (index s))
                     (thumbnail_description s)\<rparr>) (design scs))"
    by (simp add: length_design)
next
  fix i
  assume "i < length (design (design scs))"
  then have i: "i < length scs" "i < length (design scs)" by (simp_all add: length_design)
  show "design (design scs) ! i = map (\<lambda>s. s\<lparr>thumbnail_description :=
                   map_option (\<lambda>t. t @ '' | Shot suggestion: '' @ shot_suggestion (index s))
                     (thumbnail_description s)\<rparr>) (design scs) ! i"
    using i
    by (simp add: design_nth [OF i(2)] design_nth [OF i(1)]
          strip_suggestion_twice [simplified])
qed

lemma design_thumbnail_some: "s \<in> set (design scs) \<Longrightarrow> thumbnail_description s \<noteq> None"
  by (induction scs) (auto simp add: Let_def)

lemma design_eq_Nil: "design scs = [] \<longleftrightarrow> scs = []"
  by (cases scs) (simp_all add: Let_def)

text \<open>
  \<open>design_storyboard\<close> of a project with scenes raises nothing; when \<open>design_storyboard\<close>
  returns, the scenes of its project are the designed scenes of the input, or of the
  generated script.
\<close>

lemma design_storyboard_scenes:
  assumes "scenes p \<noteq> []"
  shows "design_storyboard tw svc p =
     Inr (svc\<lparr>storage :=
               save (storage svc) (p\<lparr>scenes := design (scenes p), storyboard_ready := True\<rparr>)\<rparr>,
          p\<lparr>scenes := design (scenes p), storyboard_ready := True\<rparr>)"
  using assms by (simp add: design_storyboard_def Let_def)

lemma design_storyboard_Inr:
  assumes "design_storyboard tw svc p = Inr (svc', p')"
  shows "\<exists>xs. xs \<noteq> [] \<and> scenes p' = design xs
           \<and> storyboard_ready p' \<and> preview_ready p' = preview_ready p
           \<and> project_id p' = project_id p"
proof (cases "scenes p = []")
  case False
  with assms show ?thesis
    by (auto simp add: design_storyboard_scenes)
next
  case True
  with assms obtain scs where g: "generate tw (script_generator svc) (brief p) (duration_minutes p) = Inr scs"
    by (auto simp add: design_storyboard_def generate_script_def split: sum.splits)
  from generate_not_empty [OF g] have "scs \<noteq> []" .
  moreover from assms True g have "scenes p' = design scs" "storyboard_ready p'"
    "preview_ready p' = preview_ready p" "project_id p' = project_id p"
    by (auto simp add: design_storyboard_def generate_script_def Let_def)
  ultimately show ?thesis by auto
qed

text \<open>
  Claim C3, as amended. \<open>design_storyboard\<close> of a project with scenes returns, and whenever
  a first application has returned, a second application to its result returns too,
  leaves index, title, summary, voiceover, mood and aspect ratio of every scene as they
  are, and appends \<open>" | Shot suggestion: "\<close> and the scene's suggestion once more to its
  thumbnail description (which is never \<open>None\<close> after the first application).
\<close>

theorem design_storyboard_twice:
  "(scenes p \<noteq> [] \<longrightarrow> (\<exists>svc1' p1. design_storyboard tw svc1 p = Inr (svc1', p1)))
   \<and> (\<forall>svc1' p1. design_storyboard tw svc1 p = Inr (svc1', p1) \<longrightarrow>
        (\<exists>svc2' p2. design_storyboard tw svc2 p1 = Inr (svc2', p2)
           \<and> scenes p2 =
               map (\<lambda>s. s\<lparr>thumbnail_description :=
                     map_option (\<lambda>t. t @ '' | Shot suggestion: '' @ shot_suggestion (index s))
                       (thumbnail_description s)\<rparr>)
                 (scenes p1)
           \<and> map aspect_ratio (scenes p2) = map aspect_ratio (scenes p1)
           \<and> list_all (\<lambda>s. thumbnail_description s \<noteq> None) (scenes p1)))"
proof (intro conjI allI impI)
  assume "scenes p \<noteq> []"
  then show "\<exists>svc1' p1. design_storyboard tw svc1 p = Inr (svc1', p1)"
    by (simp add: design_storyboard_scenes)
next
  fix svc1' p1
  assume "design_storyboard tw svc1 p = Inr (svc1', p1)"
  from design_storyboard_Inr [OF this]
  obtain xs where xs: "xs \<noteq> []" "scenes p1 = design xs" by blast
  then have ne: "scenes p1 \<noteq> []" by (simp add: design_eq_Nil)
  let ?p2 = "p1\<lparr>scenes := design (scenes p1), storyboard_ready := True\<rparr>"
  have two: "design_storyboard tw svc2 p1
               = Inr (svc2\<lparr>storage := save (storage svc2) ?p2\<rparr>, ?p2)"
    using ne by (rule design_storyboard_scenes)
  have "list_all (\<lambda>s. thumbnail_description s \<noteq> None) (scenes p1)"
    using design_thumbnail_some [of _ xs] by (auto simp add: xs list_all_iff)
  moreover have eq: "scenes ?p2 =
     map (\<lambda>s. s\<lparr>thumbnail_description :=
                   map_option (\<lambda>t. t @ '' | Shot suggestion: '' @ shot_suggestion (index s))
                     (thumbnail_description s)\<rparr>) (scenes p1)"
    by (simp add: xs design_design)
  moreover from eq have "map aspect_ratio (scenes ?p2) = map aspect_ratio (scenes p1)"
    by simp
  ultimately show "\<exists>svc2' p2. design_storyboard tw svc2 p1 = Inr (svc2', p2)
           \<and> scenes p2 =
               map (\<lambda>s. s\<lparr>thumbnail_description :=
                     map_option (\<lambda>t. t @ '' | Shot suggestion: '' @ shot_suggestion (index s))
                       (thumbnail_description s)\<rparr>)
                 (scenes p1)
           \<and> map aspect_ratio (scenes p2) = map aspect_ratio (scenes p1)
           \<and> list_all (\<lambda>s. thumbnail_description s \<noteq> None) (scenes p1)"
    using two by blast
qed

theorem design_storyboard_twice_witness:
  "scenes (snd example_scripted) \<noteq> []
   \<and> design_storyboard one_line (fst example_scripted) (snd example_scripted)
       = Inr example_storyboarded
   \<and> map aspect_ratio (scenes (snd example_storyboarded)) = [''16:9'', ''9:16'', ''16:9'']
   \<and> map aspect_ratio (scenes (snd example_storyboarded_twice)) = [''16:9'', ''9:16'', ''16:9'']
   \<and> map index (scenes (snd example_storyboarded_twice)) = [0, 1, 2]"
proof -
  have a: "scenes (snd example_scripted) \<noteq> []"
    "design_storyboard one_line (fst example_scripted) (snd example_scripted)
       = Inr example_storyboarded"
    "map aspect_ratio (scenes (snd example_storyboarded)) = [''16:9'', ''9:16'', ''16:9'']"
    "map index (scenes (snd example_storyboarded)) = [0, 1, 2]"
    by code_simp+
  from a(2) have first: "design_storyboard one_line (fst example_scripted) (snd example_scripted)
       = Inr (fst example_storyboarded, snd example_storyboarded)"
    by simp
  note t = design_storyboard_twice [of "snd example_scripted" one_line "fst example_scripted"
      "fst example_storyboarded", THEN conjunct2, rule_format, OF first]
  then obtain svc2' p2 where
    two: "design_storyboard one_line (fst example_storyboarded) (snd example_storyboarded)
            = Inr (svc2', p2)"
    and eq: "scenes p2 =
     map (\<lambda>s. s\<lparr>thumbnail_description :=
                   map_option (\<lambda>t. t @ '' | Shot suggestion: '' @ shot_suggestion (index s))
                     (thumbnail_description s)\<rparr>)
       (scenes (snd example_storyboarded))"
    by blast
  from two have "snd example_storyboarded_twice = p2"
    by (simp add: example_storyboarded_twice_def)
  with eq have "map aspect_ratio (scenes (snd example_storyboarded_twice))
               = map aspect_ratio (scenes (snd example_storyboarded))"
    "map index (scenes (snd example_storyboarded_twice))
               = map index (scenes (snd example_storyboarded))"
    by simp_all
  with a show ?thesis by simp
qed

text \<open>
  Claim C3 as stated fails: the example project has scenes once its script is generated,
  and the thumbnail descriptions after the second application of \<open>design_storyboard\<close>
  differ from those after the first.
\<close>

theorem design_storyboard_not_idempotent:
  "scenes (snd example_scripted) \<noteq> []
   \<and> design_storyboard one_line (fst example_scripted) (snd example_scripted)
       = Inr example_storyboarded
   \<and> design_storyboard one_line (fst example_storyboarded) (snd example_storyboarded)
       = Inr example_storyboarded_twice
   \<and> map thumbnail_description (scenes (snd example_storyboarded)) =
     [Some ''hook the audience with a relatable question featuring Share three actionable tips | Shot suggestion: wide establishing'',
      Some ''present the core promise featuring Focus on energising the viewer | Shot suggestion: medium action'',
      Some ''deliver the first key insight featuring Share three actionable tips | Shot suggestion: close-up reaction'']
   \<and> map thumbnail_description (scenes (snd example_storyboarded_twice)) =
     [Some ''hook the audience with a relatable question featuring Share three actionable tips | Shot suggestion: wide establishing | Shot suggestion: wide establishing'',
      Some ''present the core promise featuring Focus on energising the viewer | Shot suggestion: medium action | Shot suggestion: medium action'',
      Some ''deliver the first key insight featuring Share three actionable tips | Shot suggestion: close-up reaction | Shot suggestion: close-up reaction'']
   \<and> scenes (snd example_storyboarded_twice) \<noteq> scenes (snd example_storyboarded)"
  by code_simp

section \<open>Sentences and the sentence cap\<close>

lemma paired_sentence_normalize:
  "paired_sentence (normalize_sentences text) text (int i) =
     (if trimmed_segments text = [] then ''Introduce the topic in an engaging manner''
      else take 10 (trimmed_segments text) ! (i mod length (take 10 (trimmed_segments text))))"
proof (cases "trimmed_segments text = []")
  case True
  then show ?thesis by (simp add: paired_sentence_def normalize_sentences_def)
next
  case False
  then have "take 10 (trimmed_segments text) \<noteq> []" by simp
  moreover have "nat (int i mod int n) = i mod n" for n
    by (simp add: nat_mod_distrib)
  ultimately show ?thesis
    using False by (simp add: paired_sentence_def normalize_sentences_def Let_def)
qed

text \<open>
  Claim C4, as amended. \<open>generate\<close> returns unless the duration overflows, and for every
  brief the scene at position \<open>i\<close> of what it returns is built from arc \<open>i mod 6\<close> and one
  of the first 10 trimmed, non-empty sentences of the brief (the one at position \<open>i\<close>
  modulo their number); for a brief without such a sentence, every scene is built from the
  fixed sentence \<open>Introduce the topic in an engaging manner\<close>, not from the brief.
\<close>

theorem generate_sentences:
  "(\<not> float_overflow minutes \<longrightarrow> (\<exists>scs. generate tw self text minutes = Inr scs))
   \<and> (\<forall>scs. generate tw self text minutes = Inr scs \<longrightarrow>
        (\<forall>i < length scs.
           scs ! i =
             build_scene tw (int i) (arcs ! (i mod 6))
               (if trimmed_segments text = [] then ''Introduce the topic in an engaging manner''
                else take 10 (trimmed_segments text)
                       ! (i mod length (take 10 (trimmed_segments text))))))"
proof (intro conjI allI impI)
  assume "\<not> float_overflow minutes"
  then show "\<exists>scs. generate tw self text minutes = Inr scs"
    by (simp add: generate_eq)
next
  fix scs i
  assume "generate tw self text minutes = Inr scs" and "i < length scs"
  from generate_nth [OF this] show "scs ! i =
       build_scene tw (int i) (arcs ! (i mod 6))
         (if trimmed_segments text = [] then ''Introduce the topic in an engaging manner''
          else take 10 (trimmed_segments text)
                 ! (i mod length (take 10 (trimmed_segments text))))"
    by (simp only: paired_sentence_normalize) (simp add: arcs_def)
qed

theorem generate_sentences_witness:
  "\<not> float_overflow 2
   \<and> trimmed_segments ''Share three actionable tips. Focus on energising the viewer.''
     = [''Share three actionable tips'', ''Focus on energising the viewer'']
   \<and> map_sum id length
        (generate one_line (new_script_generator None)
           ''Share three actionable tips. Focus on energising the viewer.'' 2) = Inr 3
   \<and> map_sum id (\<lambda>scs. scs ! 2)
        (generate one_line (new_script_generator None)
           ''Share three actionable tips. Focus on energising the viewer.'' 2)
       = Inr (build_scene one_line 2 ''Deliver the first key insight''
                ''Share three actionable tips'')"
proof -
  let ?text = "''Share three actionable tips. Focus on energising the viewer.''"
  have o: "\<not> float_overflow 2" by (rule small_no_overflow) simp
  have seg: "trimmed_segments ?text
     = [''Share three actionable tips'', ''Focus on energising the viewer'']"
    by code_simp
  note t = generate_sentences [of 2 one_line "new_script_generator None" ?text]
  from t o obtain scs where g: "generate one_line (new_script_generator None) ?text 2 = Inr scs"
    by blast
  have len: "length scs = 3"
  proof -
    from length_generate [OF g] have "int (length scs) = 3"
      by (simp add: ceiling_three_halves)
    then show ?thesis by simp
  qed
  from t g len
  have "scs ! 2 = build_scene one_line (int 2) (arcs ! (2 mod 6))
         (if trimmed_segments ?text = [] then ''Introduce the topic in an engaging manner''
          else take 10 (trimmed_segments ?text)
                 ! (2 mod length (take 10 (trimmed_segments ?text))))"
    by simp
  then have "scs ! 2 =
       build_scene one_line 2 ''Deliver the first key insight'' ''Share three actionable tips''"
    by (simp add: seg arcs_def numeral_2_eq_2)
  with o seg g len show ?thesis by simp
qed

text \<open>
  Claim C4 as stated fails: the empty brief has no sentence, and the scenes are built from
  the fixed sentence (each summary is shorter than 90 characters, so that \<open>fill\<close> returns
  it as it is); with the brief as the sentence, the thumbnail of the first scene would end
  with \<open>featuring\<close>.
\<close>

theorem generate_fallback_is_not_brief:
  "trimmed_segments '''' = []
   \<and> map_sum id (map summary) (generate one_line (new_script_generator None) '''' 1) =
       Inr [''Hook the audience with a relatable question: Introduce the topic in an engaging manner'',
            ''Present the core promise: Introduce the topic in an engaging manner'',
            ''Deliver the first key insight: Introduce the topic in an engaging manner'']
   \<and> map_sum id (map thumbnail_description)
         (generate one_line (new_script_generator None) '''' 1) =
       Inr [Some ''hook the audience with a relatable question featuring Introduce the topic in an engaging'',
            Some ''present the core promise featuring Introduce the topic in an engaging'',
            Some ''deliver the first key insight featuring Introduce the topic in an engaging'']
   \<and> paired_sentence (normalize_sentences '''') '''' 0
       = ''Introduce the topic in an engaging manner''
   \<and> thumbnail_from_arc ''Hook the audience with a relatable question'' ''''
       = ''hook the audience with a relatable question featuring''"
  by code_simp

text \<open>
  Claim C10. Two script generators that differ in \<open>max_sentences\<close> only return the same
  scenes, or raise the same exception, for every brief and every duration; the sentences
  the scenes are built from are the first 10 of the brief.
\<close>

theorem max_sentences_no_effect:
  "generate tw self1 text minutes = generate tw self2 text minutes
   \<and> length (normalize_sentences text) \<le> 10
   \<and> normalize_sentences text =
       (if trimmed_segments text = [] then [''Introduce the topic in an engaging manner'']
        else take 10 (trimmed_segments text))"
  by (simp add: generate_def normalize_sentences_def Let_def)

theorem max_sentences_no_effect_witness:
  "generate one_line (new_script_generator (Some 1)) ''a. b. c. d. e. f. g. h. i. j. k. l.'' 4
     = generate one_line (new_script_generator None) ''a. b. c. d. e. f. g. h. i. j. k. l.'' 4
   \<and> max_sentences (new_script_generator (Some 1)) = 1
   \<and> max_sentences (new_script_generator None) = 5
   \<and> normalize_sentences ''a. b. c. d. e. f. g. h. i. j. k. l.''
       = [''a'', ''b'', ''c'', ''d'', ''e'', ''f'', ''g'', ''h'', ''i'', ''j'']
   \<and> map_sum id (map summary)
         (generate one_line (new_script_generator (Some 1))
            ''a. b. c. d. e. f. g. h. i. j. k. l.'' 4)
       = Inr [''Hook the audience with a relatable question: a'',
              ''Present the core promise: b'',
              ''Deliver the first key insight: c'',
              ''Share the second key insight: d'',
              ''Explain how to put the advice into practice: e'',
              ''Close with a memorable takeaway: f'']"
proof -
  note t = max_sentences_no_effect [of one_line "new_script_generator (Some 1)"
      "''a. b. c. d. e. f. g. h. i. j. k. l.''" 4 "new_script_generator None"]
  have n: "normalize_sentences ''a. b. c. d. e. f. g. h. i. j. k. l.''
       = [''a'', ''b'', ''c'', ''d'', ''e'', ''f'', ''g'', ''h'', ''i'', ''j'']"
    by code_simp
  have s: "map_sum id (map summary)
         (generate one_line (new_script_generator None)
            ''a. b. c. d. e. f. g. h. i. j. k. l.'' 4)
       = Inr [''Hook the audience with a relatable question: a'',
              ''Present the core promise: b'',
              ''Deliver the first key insight: c'',
              ''Share the second key insight: d'',
              ''Explain how to put the advice into practice: e'',
              ''Close with a memorable takeaway: f'']"
    by code_simp
  from t have e: "generate one_line (new_script_generator (Some 1))
       ''a. b. c. d. e. f. g. h. i. j. k. l.'' 4
     = generate one_line (new_script_generator None) ''a. b. c. d. e. f. g. h. i. j. k. l.'' 4"
    by (rule conjunct1)
  from e n s show ?thesis by (simp add: new_script_generator_def)
qed

section \<open>Generating the script of a project\<close>

text \<open>
  Claim C7. \<open>generate_script\<close> returns unless the duration overflows, and the project it
  returns has the project id, title, brief, tone, target audience, duration, creation time
  and both readiness flags of its input; the scenes are those the generator returns for
  the brief and the duration, and the summary is the one derived from them.
\<close>

theorem generate_script_frame:
  "(\<not> float_overflow (duration_minutes p) \<longrightarrow>
      (\<exists>svc' p'. generate_script tw svc p = Inr (svc', p')))
   \<and> (\<forall>svc' p'. generate_script tw svc p = Inr (svc', p') \<longrightarrow>
        project_id p' = project_id p
      \<and> project.title p' = project.title p
      \<and> brief p' = brief p
      \<and> tone p' = tone p
      \<and> target_audience p' = target_audience p
      \<and> duration_minutes p' = duration_minutes p
      \<and> created_at p' = created_at p
      \<and> storyboard_ready p' = storyboard_ready p
      \<and> preview_ready p' = preview_ready p
      \<and> generate tw (script_generator svc) (brief p) (duration_minutes p) = Inr (scenes p')
      \<and> script_summary p' = Some (summarize_scenes (scenes p')))"
  by (auto simp add: generate_script_def Let_def generate_eq split: sum.splits if_splits)

theorem generate_script_frame_witness:
  "\<not> float_overflow (duration_minutes (snd example_created))
   \<and> generate_script one_line (fst example_created) (snd example_created) = Inr example_scripted
   \<and> project_id (snd example_scripted) = ''3f2a9c0b7d1e''
   \<and> project.title (snd example_scripted) = ''Morning Routine Hacks''
   \<and> duration_minutes (snd example_scripted) = 2
   \<and> created_at (snd example_scripted) = ''2024-01-01T00:00:00Z''
   \<and> storyboard_ready (snd example_scripted) = False
   \<and> preview_ready (snd example_scripted) = False
   \<and> script_summary (snd example_scripted)
       = Some ''Share three actionable tips | Focus on energising the viewer | Share three actionable tips''"
proof -
  have c: "project_id (snd example_created) = ''3f2a9c0b7d1e''"
    "project.title (snd example_created) = ''Morning Routine Hacks''"
    "duration_minutes (snd example_created) = 2"
    "created_at (snd example_created) = ''2024-01-01T00:00:00Z''"
    "storyboard_ready (snd example_created) = False"
    "preview_ready (snd example_created) = False"
    by (simp_all add: example_created_def create_project_def Let_def)
  have o: "\<not> float_overflow (duration_minutes (snd example_created))"
    by (simp add: c small_no_overflow)
  note t = generate_script_frame [of "snd example_created" one_line "fst example_created"]
  from t o obtain svc' p'
    where g: "generate_script one_line (fst example_created) (snd example_created) = Inr (svc', p')"
    by blast
  then have e: "snd example_scripted = p'"
    "generate_script one_line (fst example_created) (snd example_created) = Inr example_scripted"
    by (simp_all add: example_scripted_def)
  have s: "script_summary (snd example_scripted)
       = Some ''Share three actionable tips | Focus on energising the viewer | Share three actionable tips''"
    by code_simp
  from t g have "project_id p' = project_id (snd example_created)"
    "project.title p' = project.title (snd example_created)"
    "duration_minutes p' = duration_minutes (snd example_created)"
    "created_at p' = created_at (snd example_created)"
    "storyboard_ready p' = storyboard_ready (snd example_created)"
    "preview_ready p' = preview_ready (snd example_created)"
    by blast+
  with c o e s show ?thesis by simp
qed

section \<open>Rendering the preview\<close>









section \<open>The lifecycle of a project\<close>











section \<open>Listing the projects\<close>

lemma list_projects_empty_home: "list_projects now \<lparr>home = dir, files = []\<rparr> = ([], None)"
  by (simp add: list_projects_def glob_json_def)

text \<open>
  Claim C9, evaluated. On an empty home directory \<open>list_projects\<close> yields nothing and
  raises nothing, and after \<open>create_project\<close> it yields the project. After
  \<open>render_preview\<close> with the default destination the home directory holds the project's
  file and the preview's file; \<open>list_projects\<close> yields the project and then raises
  \<open>TypeError\<close>, since the preview is no dictionary of a project.
\<close>

theorem list_projects_after_default_preview:
  "service_list_projects ''2030-05-05T00:00:00Z'' example_service = ([], None)
   \<and> service_list_projects ''2030-05-05T00:00:00Z'' (fst example_created)
       = ([snd example_created], None)
   \<and> render_preview one_line (fst example_created) (snd example_created) None
       = Inr example_rendered
   \<and> snd example_rendered = Home ''3f2a9c0b7d1e_preview.json''
   \<and> sort (glob_json (files (storage (fst example_rendered))))
       = [''3f2a9c0b7d1e.json'', ''3f2a9c0b7d1e_preview.json'']
   \<and> service_list_projects ''2030-05-05T00:00:00Z'' (fst example_rendered)
       = ([(snd example_storyboarded)\<lparr>preview_ready := True\<rparr>], Some TypeError)"
  by code_simp

end
